theory Spec2Isabelle
  imports Complex_Main "HOL-Library.Word"
begin

section \<open>Python strings\<close>

text \<open>
  Text is a list of characters whose code points lie below 256. The three string
  operations of the service are \<open>str.strip()\<close>, \<open>str.lower()\<close> and the substring
  test \<open>needle in haystack\<close>; \<open>is_space\<close> lists the code points below 256 that
  \<open>strip\<close> removes, \<open>lower_char\<close> the ones \<open>lower\<close> changes.
\<close>

definition is_space :: "char \<Rightarrow> bool" where
  "is_space c = (of_char c \<in> {9, 10, 11, 12, 13, 28, 29, 30, 31, 32, 133, 160 :: nat})"

definition strip :: "string \<Rightarrow> string" where
  "strip s = rev (dropWhile is_space (rev (dropWhile is_space s)))"

definition lower_char :: "char \<Rightarrow> char" where
  "lower_char c =
     (let n = (of_char c :: nat)
      in if (65 \<le> n \<and> n \<le> 90) \<or> (192 \<le> n \<and> n \<le> 222 \<and> n \<noteq> 215)
         then char_of (n + 32) else c)"

definition lower :: "string \<Rightarrow> string" where
  "lower s = map lower_char s"

fun startswith :: "string \<Rightarrow> string \<Rightarrow> bool" where
  "startswith s [] = True"
| "startswith [] (p # ps) = False"
| "startswith (c # cs) (p # ps) = (c = p \<and> startswith cs ps)"

text \<open>\<open>contains s needle\<close> is Python's \<open>needle in s\<close>.\<close>

fun contains :: "string \<Rightarrow> string \<Rightarrow> bool" where
  "contains [] needle = (needle = [])"
| "contains (c # cs) needle = (startswith (c # cs) needle \<or> contains cs needle)"

text \<open>\<open>any_in ts s\<close> is \<open>any(t in s for t in ts)\<close>.\<close>

definition any_in :: "string list \<Rightarrow> string \<Rightarrow> bool" where
  "any_in ts s = list_ex (contains s) ts"

section \<open>Parsed JSON values\<close>

text \<open>
  A Python float is a finite number or one of the three special values that
  \<open>json.loads\<close> also produces (from \<open>NaN\<close>, \<open>Infinity\<close>, \<open>-Infinity\<close>). Finite values
  are kept as real numbers; every comparison with NaN is false.
\<close>

datatype pyfloat = Fin real | PosInf | NegInf | NaN

fun float_lt :: "pyfloat \<Rightarrow> pyfloat \<Rightarrow> bool" where
  "float_lt NaN b = False"
| "float_lt a NaN = False"
| "float_lt (Fin x) (Fin y) = (x < y)"
| "float_lt (Fin x) PosInf = True"
| "float_lt (Fin x) NegInf = False"
| "float_lt PosInf b = False"
| "float_lt NegInf NegInf = False"
| "float_lt NegInf b = True"

text \<open>What \<open>json.loads\<close> returns: None, bool, int, float, str, list, dict (in key order).\<close>

datatype json =
    JNull
  | JBool bool
  | JInt int
  | JFloat pyfloat
  | JStr string
  | JList "json list"
  | JDict "(string \<times> json) list"

type_synonym dict = "(string \<times> json) list"

text \<open>Truth value of a Python object (\<open>if not x\<close>).\<close>

fun truthy :: "json \<Rightarrow> bool" where
  "truthy JNull = False"
| "truthy (JBool b) = b"
| "truthy (JInt n) = (n \<noteq> 0)"
| "truthy (JFloat f) = (f \<noteq> Fin 0)"
| "truthy (JStr s) = (s \<noteq> [])"
| "truthy (JList xs) = (xs \<noteq> [])"
| "truthy (JDict d) = (d \<noteq> [])"

fun is_str :: "json \<Rightarrow> bool" where
  "is_str (JStr s) = True"
| "is_str v = False"

text \<open>\<open>k in d\<close>, \<open>d[k] = v\<close> (in place when the key exists, appended otherwise) and
  \<open>d.setdefault(k, v)\<close>.\<close>

definition dict_has :: "dict \<Rightarrow> string \<Rightarrow> bool" where
  "dict_has d k = (map_of d k \<noteq> None)"

fun dict_set :: "string \<Rightarrow> json \<Rightarrow> dict \<Rightarrow> dict" where
  "dict_set k v [] = [(k, v)]"
| "dict_set k v ((k', v') # rest) =
     (if k = k' then (k, v) # rest else (k', v') # dict_set k v rest)"

definition setdefault :: "string \<Rightarrow> json \<Rightarrow> dict \<Rightarrow> dict" where
  "setdefault k v d = (if dict_has d k then d else dict_set k v d)"

section \<open>Exceptions\<close>

text \<open>
  \<open>GeminiAPIError message error_type\<close> is the module's own exception (\<open>error_type\<close>
  defaults to \<open>general\<close>). \<open>BrokenStr e\<close> is an exception object whose \<open>__str__\<close>
  raises the exception \<open>e\<close>; \<open>SelfRaising\<close> is one whose \<open>__str__\<close> raises the object
  itself. \<open>py_str\<close> is \<open>str(error)\<close>: the text, or the exception that \<open>__str__\<close> raised.
\<close>

datatype py_exception =
    GeminiAPIError string string
  | OverflowError string
  | OtherException string
  | BrokenStr py_exception
  | SelfRaising

fun py_str :: "py_exception \<Rightarrow> py_exception + string" where
  "py_str (GeminiAPIError msg ty) = Inr msg"
| "py_str (OverflowError msg) = Inr msg"
| "py_str (OtherException msg) = Inr msg"
| "py_str (BrokenStr e) = Inl e"
| "py_str SelfRaising = Inl SelfRaising"

section \<open>The builtin \<open>float()\<close>\<close>

datatype float_error = FloatValueError | FloatTypeError | FloatOverflowError

text \<open>An int of magnitude at least \<open>2^1024 - 2^970\<close> rounds beyond the largest double.\<close>

definition float_overflow_bound :: int where
  "float_overflow_bound = 2 ^ 1024 - 2 ^ 970"

text \<open>
  \<open>float(x)\<close> on a parsed JSON value. The conversion of a string is the parameter
  \<open>sf\<close> (\<open>None\<close> is ValueError). For an int the result stands for the nearest double:
  rounding is monotone and keeps 0 and 1, so the comparisons with 0.0 and 1.0 below
  are those of the code.
\<close>

fun py_float :: "(string \<Rightarrow> pyfloat option) \<Rightarrow> json \<Rightarrow> float_error + pyfloat" where
  "py_float sf JNull = Inl FloatTypeError"
| "py_float sf (JBool b) = Inr (Fin (if b then 1 else 0))"
| "py_float sf (JInt n) =
     (if float_overflow_bound \<le> \<bar>n\<bar> then Inl FloatOverflowError else Inr (Fin (of_int n)))"
| "py_float sf (JFloat f) = Inr f"
| "py_float sf (JStr s) = (case sf s of None \<Rightarrow> Inl FloatValueError | Some f \<Rightarrow> Inr f)"
| "py_float sf (JList xs) = Inl FloatTypeError"
| "py_float sf (JDict d) = Inl FloatTypeError"

section \<open>FallbackGenerator\<close>

definition get_fallback_plants :: "json list" where
  "get_fallback_plants =
    [JDict
       [(''name'', JStr ''Spider Plant''),
        (''image'', JStr ''''),
        (''superimposed_image'', JStr ''''),
        (''description'', JStr ''Hardy indoor plant that adapts well to various lighting conditions and is easy to care for.''),
        (''care_instructions'', JStr ''Water when soil feels dry, prefers bright indirect light, well-draining soil.''),
        (''care_tips'', JStr ''Remove brown tips, propagate plantlets for new plants, rotate occasionally for even growth.''),
        (''AR_model'', JStr ''''),
        (''placement_confidence'', JFloat (Fin 0.7))],
     JDict
       [(''name'', JStr ''Pothos''),
        (''image'', JStr ''''),
        (''superimposed_image'', JStr ''''),
        (''description'', JStr ''Versatile trailing plant that thrives in low to medium light and is very forgiving.''),
        (''care_instructions'', JStr ''Water when top inch of soil is dry, tolerates low light, standard potting mix.''),
        (''care_tips'', JStr ''Trim to encourage bushier growth, can grow in water or soil, wipe leaves occasionally.''),
        (''AR_model'', JStr ''''),
        (''placement_confidence'', JFloat (Fin 0.8))],
     JDict
       [(''name'', JStr ''Snake Plant''),
        (''image'', JStr ''''),
        (''superimposed_image'', JStr ''''),
        (''description'', JStr ''Low-maintenance succulent that tolerates neglect and various lighting conditions.''),
        (''care_instructions'', JStr ''Water sparingly, allow soil to dry completely between waterings, tolerates low light.''),
        (''care_tips'', JStr ''Avoid overwatering, clean leaves with damp cloth, divide to propagate new plants.''),
        (''AR_model'', JStr ''''),
        (''placement_confidence'', JFloat (Fin 0.6))]]"

definition fallback_keywords :: "string list" where
  "fallback_keywords = [''plant'', ''grow'', ''suitable'', ''recommend'']"

definition generic_description :: string where
  "generic_description = ''Location analysis completed, but detailed parsing failed. The area appears suitable for plant growth based on available information.''"

definition partial_description :: string where
  "partial_description = ''Location analysis completed with some details available. Basic plant recommendations provided.''"

definition create_comprehensive_fallback_response :: "string \<Rightarrow> dict" where
  "create_comprehensive_fallback_response response_text =
     (let description =
        (if response_text \<noteq> [] \<and> 0 < length (strip response_text)
         then (if any_in fallback_keywords (lower response_text)
               then partial_description else generic_description)
         else generic_description)
      in [(''description'', JStr description), (''plants'', JList get_fallback_plants)])"

section \<open>PlantValidator\<close>

definition required_fields :: "(string \<times> string) list" where
  "required_fields =
     [(''name'', ''Unknown Plant''),
      (''description'', ''Plant information not available.''),
      (''care_instructions'', ''Follow general plant care guidelines.''),
      (''care_tips'', ''Monitor plant health and adjust care as needed.'')]"

text \<open>One round of the first loop: a missing, falsy or non-string field gets its default.\<close>

definition fix_required_field :: "dict \<Rightarrow> string \<times> string \<Rightarrow> dict" where
  "fix_required_field plant fd =
     (case map_of plant (fst fd) of
        None \<Rightarrow> dict_set (fst fd) (JStr (snd fd)) plant
      | Some v \<Rightarrow>
          if \<not> truthy v \<or> \<not> is_str v then dict_set (fst fd) (JStr (snd fd)) plant
          else plant)"

text \<open>
  The \<open>placement_confidence\<close> block. ValueError (also the one raised for a value out
  of range) and TypeError are caught and give 0.5; the OverflowError of \<open>float()\<close> on
  a huge int is not caught there and leaves the validator.
\<close>

definition fix_confidence :: "(string \<Rightarrow> pyfloat option) \<Rightarrow> dict \<Rightarrow> py_exception + dict" where
  "fix_confidence sf plant =
     (case map_of plant ''placement_confidence'' of
        None \<Rightarrow> Inr (dict_set ''placement_confidence'' (JFloat (Fin 0.5)) plant)
      | Some confidence \<Rightarrow>
          (case py_float sf confidence of
             Inr c \<Rightarrow>
               if float_lt c (Fin 0.0) \<or> float_lt (Fin 1.0) c
               then Inr (dict_set ''placement_confidence'' (JFloat (Fin 0.5)) plant)
               else Inr (dict_set ''placement_confidence'' (JFloat c) plant)
           | Inl FloatValueError \<Rightarrow>
               Inr (dict_set ''placement_confidence'' (JFloat (Fin 0.5)) plant)
           | Inl FloatTypeError \<Rightarrow>
               Inr (dict_set ''placement_confidence'' (JFloat (Fin 0.5)) plant)
           | Inl FloatOverflowError \<Rightarrow>
               Inl (OverflowError ''int too large to convert to float'')))"

text \<open>One round of the last loop: \<open>if not plant[field].strip()\<close>. A missing key or a
  value without \<open>strip\<close> would raise.\<close>

definition fix_blank_field :: "dict \<Rightarrow> string \<times> string \<Rightarrow> py_exception + dict" where
  "fix_blank_field plant fd =
     (case map_of plant (fst fd) of
        None \<Rightarrow> Inl (OtherException (fst fd))
      | Some (JStr s) \<Rightarrow>
          if strip s = [] then Inr (dict_set (fst fd) (JStr (snd fd)) plant) else Inr plant
      | Some v \<Rightarrow> Inl (OtherException ''object has no attribute strip''))"

fun fix_blank_fields :: "dict \<Rightarrow> (string \<times> string) list \<Rightarrow> py_exception + dict" where
  "fix_blank_fields plant [] = Inr plant"
| "fix_blank_fields plant (fd # fds) =
     (case fix_blank_field plant fd of
        Inl e \<Rightarrow> Inl e
      | Inr plant' \<Rightarrow> fix_blank_fields plant' fds)"

definition fix_superimposed_image :: "dict \<Rightarrow> dict" where
  "fix_superimposed_image plant =
     (case map_of plant ''superimposed_image'' of
        Some (JStr s) \<Rightarrow> plant
      | _ \<Rightarrow> dict_set ''superimposed_image'' (JStr '''') plant)"

text \<open>The validator mutates the record in place; the model returns the mutated record,
  or the exception that left the function.\<close>

definition validate_comprehensive_plant_data ::
    "(string \<Rightarrow> pyfloat option) \<Rightarrow> json \<Rightarrow> py_exception + dict" where
  "validate_comprehensive_plant_data sf plant =
     (case plant of
        JDict p0 \<Rightarrow>
          (let p1 = foldl fix_required_field p0 required_fields;
               p2 = setdefault ''image'' (JStr '''') p1;
               p3 = setdefault ''AR_model'' (JStr '''') p2;
               p4 = fix_superimposed_image p3
           in case fix_confidence sf p4 of
                Inl e \<Rightarrow> Inl e
              | Inr p5 \<Rightarrow> fix_blank_fields p5 required_fields)
      | _ \<Rightarrow> Inl (GeminiAPIError ''Plant data must be a dictionary'' ''general''))"

text \<open>The loop over the upstream list: a record whose validation raises is skipped.\<close>

fun validated_plants :: "(string \<Rightarrow> pyfloat option) \<Rightarrow> json list \<Rightarrow> json list" where
  "validated_plants sf [] = []"
| "validated_plants sf (plant # rest) =
     (case validate_comprehensive_plant_data sf plant of
        Inr p \<Rightarrow> JDict p # validated_plants sf rest
      | Inl e \<Rightarrow> validated_plants sf rest)"

section \<open>ResponseParser\<close>

text \<open>
  The raw response object: \<open>response.candidates[0].content.parts[0].text\<close>. A missing
  \<open>candidates\<close> attribute and a \<open>content\<close> that is None are \<open>None\<close>; \<open>OtherPart\<close> is
  a part without a \<open>text\<close> attribute.
\<close>

datatype part = TextPart string | OtherPart

record candidate =
  content :: "part list option"

record response =
  candidates :: "candidate list option"

text \<open>
  The library functions the service calls. \<open>json_loads\<close> is \<open>None\<close> when
  \<open>json.loads\<close> raises; \<open>b64decode\<close>, \<open>image_open\<close>, \<open>image_verify\<close>, \<open>configure\<close>
  and \<open>generate_content\<close> give the text of the exception they raise. The prompt is
  kept as the three coordinates it is built from.
\<close>

type_synonym bytes = "8 word list"

datatype prompt = ComprehensivePrompt json json json

record runtime =
  float_of_str :: "string \<Rightarrow> pyfloat option"
  json_loads :: "string \<Rightarrow> json option"
  b64decode :: "string \<Rightarrow> string + bytes"
  image_open :: "bytes \<Rightarrow> string option"
  image_verify :: "bytes \<Rightarrow> string option"
  getenv_api_key :: "string option"
  configure :: "string \<Rightarrow> string option"
  generate_content :: "prompt \<Rightarrow> bytes \<Rightarrow> string + response option"

text \<open>The part of \<open>_process_comprehensive_response\<close> after a dict has been parsed.\<close>

definition process_parsed :: "runtime \<Rightarrow> dict \<Rightarrow> dict" where
  "process_parsed rt parsed_response =
     (let d1 = (if \<not> dict_has parsed_response ''description''
                then dict_set ''description''
                       (JStr ''Location analysis completed with limited details available.'')
                       parsed_response
                else parsed_response);
          d2 = (if \<not> dict_has d1 ''plants''
                then dict_set ''plants'' (JList get_fallback_plants) d1 else d1);
          plants = (case map_of d2 ''plants'' of None \<Rightarrow> JList [] | Some v \<Rightarrow> v)
      in case plants of
           JList ps \<Rightarrow>
             (let validated = validated_plants (float_of_str rt) ps
              in if validated = [] then dict_set ''plants'' (JList get_fallback_plants) d2
                 else dict_set ''plants'' (JList validated) d2)
         | _ \<Rightarrow> dict_set ''plants'' (JList get_fallback_plants) d2)"

definition process_comprehensive_response :: "runtime \<Rightarrow> response option \<Rightarrow> dict" where
  "process_comprehensive_response rt resp =
     (case resp of
        None \<Rightarrow> create_comprehensive_fallback_response ''No response received''
      | Some r \<Rightarrow>
         (case candidates r of
            None \<Rightarrow> create_comprehensive_fallback_response ''Invalid response structure''
          | Some [] \<Rightarrow> create_comprehensive_fallback_response ''Invalid response structure''
          | Some (c # cs) \<Rightarrow>
             (case content c of
                None \<Rightarrow> create_comprehensive_fallback_response ''Empty response content''
              | Some [] \<Rightarrow> create_comprehensive_fallback_response ''Empty response content''
              | Some (OtherPart # ps) \<Rightarrow>
                  create_comprehensive_fallback_response ''Failed to extract response''
              | Some (TextPart response_text # ps) \<Rightarrow>
                  if response_text = [] \<or> strip response_text = []
                  then create_comprehensive_fallback_response ''Empty response text''
                  else (case json_loads rt response_text of
                          None \<Rightarrow> create_comprehensive_fallback_response response_text
                        | Some (JDict parsed_response) \<Rightarrow> process_parsed rt parsed_response
                        | Some v \<Rightarrow>
                            create_comprehensive_fallback_response ''Invalid response format''))))"

section \<open>ErrorClassifier\<close>

definition auth_terms :: "string list" where
  "auth_terms = [''auth'', ''credential'', ''api key'', ''permission'']"

definition quota_terms :: "string list" where
  "quota_terms = [''quota'', ''rate limit'', ''too many requests'', ''limit exceeded'']"

definition network_terms :: "string list" where
  "network_terms = [''network'', ''connection'', ''timeout'', ''unreachable'', ''dns'']"

definition format_terms :: "string list" where
  "format_terms = [''json'', ''parse'', ''format'', ''decode'', ''malformed'']"

definition image_terms :: "string list" where
  "image_terms = [''image'', ''invalid format'', ''decode'', ''corrupt'']"

definition unavail_terms :: "string list" where
  "unavail_terms = [''unavailable'', ''not found'', ''404'', ''503'', ''service'']"

definition error_response :: "string \<Rightarrow> json list \<Rightarrow> string \<Rightarrow> dict" where
  "error_response d ps e = [(''description'', JStr d), (''plants'', JList ps), (''error'', JStr e)]"

text \<open>
  \<open>handle_api_errors\<close>. The \<open>try\<close> block takes \<open>str(error)\<close> and walks the chain of
  tests. Its handler catches the exception of a failing \<open>str(error)\<close>, but logs
  \<open>str(fallback_error)\<close> before it returns the last-resort dict: when that call raises
  too, the exception leaves the function.
\<close>

definition handle_api_errors :: "py_exception \<Rightarrow> py_exception + dict" where
  "handle_api_errors error =
     (case py_str error of
        Inl fallback_error \<Rightarrow>
          (case py_str fallback_error of
             Inl e \<Rightarrow> Inl e
           | Inr m \<Rightarrow>
               Inr (error_response ''Unable to analyze location at this time. Please try again.''
                      [] ''Service temporarily unavailable. Please try again later.''))
      | Inr error_message \<Rightarrow> Inr
         (let error_lower = lower error_message
          in if any_in auth_terms error_lower then
               error_response
                 ''Unable to authenticate with plant analysis service. Please try again later.''
                 []
                 ''Authentication failed. Please contact support if this persists.''
             else if any_in quota_terms error_lower then
               error_response
                 ''Plant analysis service is currently experiencing high demand. Please try again in a few minutes.''
                 get_fallback_plants
                 ''Service temporarily unavailable due to high demand. Please try again shortly.''
             else if any_in network_terms error_lower then
               error_response
                 ''Unable to connect to plant analysis service. Please check your internet connection and try again.''
                 get_fallback_plants
                 ''Network connection issue. Please check your internet connection and try again.''
             else if any_in format_terms error_lower then
               error_response
                 ''Plant analysis completed, but response formatting failed. Basic recommendations provided.''
                 get_fallback_plants
                 ''Response processing issue. Basic plant suggestions provided.''
             else if any_in image_terms error_lower then
               error_response
                 ''Unable to process the uploaded image. Please try with a different image.''
                 []
                 ''Image processing failed. Please try uploading a different image.''
             else if any_in unavail_terms error_lower then
               error_response
                 ''Plant analysis service is temporarily unavailable. Basic recommendations provided.''
                 get_fallback_plants
                 ''Analysis service temporarily unavailable. Please try again later.''
             else
               error_response
                 ''Plant analysis encountered an issue, but basic recommendations are available.''
                 get_fallback_plants
                 ''Analysis service encountered an issue. Basic plant suggestions provided.''))"

text \<open>The status chosen in \<open>answer\<close> from the \<open>error_type\<close> of the caught error.\<close>

definition status_code :: "string \<Rightarrow> nat" where
  "status_code error_type =
     (if error_type = ''auth'' then 401
      else if error_type = ''quota'' then 429
      else if error_type \<in> set [''network'', ''api''] then 503
      else if error_type \<in> set [''validation'', ''image''] then 400
      else 500)"

section \<open>ImagePreparer\<close>

text \<open>\<open>str.split(sep)\<close> for a one-character separator.\<close>

fun split_on :: "char \<Rightarrow> string \<Rightarrow> string list" where
  "split_on sep [] = [[]]"
| "split_on sep (c # cs) =
     (if c = sep then [] # split_on sep cs
      else (case split_on sep cs of
              [] \<Rightarrow> [[c]]
            | w # ws \<Rightarrow> (c # w) # ws))"

text \<open>Text of an exception raised inside the pipeline, where every exception prints.\<close>

definition exception_text :: "py_exception \<Rightarrow> string" where
  "exception_text e = (case py_str e of Inl e' \<Rightarrow> [] | Inr m \<Rightarrow> m)"

definition max_image_bytes :: nat where
  "max_image_bytes = 10 * 1024 * 1024"

text \<open>The inner \<open>try\<close> block of \<open>_prepare_image_for_api\<close>: open, verify, then the size
  check.\<close>

definition open_verify_and_measure :: "runtime \<Rightarrow> bytes \<Rightarrow> py_exception + bytes" where
  "open_verify_and_measure rt image_bytes =
     (case image_open rt image_bytes of
        Some m \<Rightarrow> Inl (OtherException m)
      | None \<Rightarrow>
         (case image_verify rt image_bytes of
            Some m \<Rightarrow> Inl (OtherException m)
          | None \<Rightarrow>
              if max_image_bytes < length image_bytes
              then Inl (GeminiAPIError ''Image file too large (max 10MB)'' ''image'')
              else Inr image_bytes))"

text \<open>Its handler: an error whose text has \<open>too large\<close> is raised again as it is, any
  other one is wrapped.\<close>

definition validate_image :: "runtime \<Rightarrow> bytes \<Rightarrow> py_exception + bytes" where
  "validate_image rt image_bytes =
     (case open_verify_and_measure rt image_bytes of
        Inr b \<Rightarrow> Inr b
      | Inl img_error \<Rightarrow>
          if contains (exception_text img_error) ''too large'' then Inl img_error
          else Inl (GeminiAPIError
                 (''Invalid or corrupted image format: '' @ exception_text img_error) ''image''))"

text \<open>Removal of the data-URL prefix: \<open>image_data.split(',')[1]\<close>, IndexError caught.\<close>

definition strip_data_url :: "string \<Rightarrow> py_exception + string" where
  "strip_data_url s =
     (if startswith s ''data:image''
      then (case split_on CHR '','' s of
              a # b # rest \<Rightarrow> Inr b
            | _ \<Rightarrow> Inl (GeminiAPIError ''Malformed data URL format'' ''image''))
      else Inr s)"

definition prepare_image_body :: "runtime \<Rightarrow> json \<Rightarrow> py_exception + bytes" where
  "prepare_image_body rt image_data =
     (case image_data of
        JStr s \<Rightarrow>
          if s = [] then Inl (GeminiAPIError ''Invalid image data provided'' ''image'')
          else
           (case strip_data_url s of
              Inl e \<Rightarrow> Inl e
            | Inr payload \<Rightarrow>
               (case b64decode rt payload of
                  Inl decode_error \<Rightarrow>
                    Inl (GeminiAPIError (''Invalid base64 encoding: '' @ decode_error) ''image'')
                | Inr image_bytes \<Rightarrow> validate_image rt image_bytes))
      | _ \<Rightarrow> Inl (GeminiAPIError ''Invalid image data provided'' ''image''))"

text \<open>The outermost handlers: a GeminiAPIError passes, anything else is wrapped.\<close>

definition prepare_image_for_api :: "runtime \<Rightarrow> json \<Rightarrow> py_exception + bytes" where
  "prepare_image_for_api rt image_data =
     (case prepare_image_body rt image_data of
        Inr b \<Rightarrow> Inr b
      | Inl (GeminiAPIError m t) \<Rightarrow> Inl (GeminiAPIError m t)
      | Inl e \<Rightarrow> Inl (GeminiAPIError (''Failed to prepare image: '' @ exception_text e) ''image''))"

section \<open>ModelInvoker and the request handler\<close>

text \<open>How a failure of the external call is tagged.\<close>

definition categorize_api_error :: "string \<Rightarrow> py_exception" where
  "categorize_api_error api_error =
     (let error_msg = lower api_error
      in if contains error_msg ''quota'' \<or> contains error_msg ''rate limit''
         then GeminiAPIError (''API quota exceeded: '' @ api_error) ''quota''
         else if contains error_msg ''network'' \<or> contains error_msg ''connection''
         then GeminiAPIError (''Network error: '' @ api_error) ''network''
         else if contains error_msg ''auth'' \<or> contains error_msg ''permission''
         then GeminiAPIError (''Authentication error: '' @ api_error) ''auth''
         else GeminiAPIError (''API call failed: '' @ api_error) ''api'')"

text \<open>
  \<open>analyze_image_and_recommend_plants\<close>. The first argument is \<open>self.model\<close> being set.
  The second component of the result is the list of calls made to the external
  service, in order.
\<close>

definition analyze_image_and_recommend_plants ::
    "runtime \<Rightarrow> bool \<Rightarrow> json \<Rightarrow> json \<Rightarrow> (py_exception + dict) \<times> (prompt \<times> bytes) list" where
  "analyze_image_and_recommend_plants rt model image_data location =
     (if \<not> model then (Inl (GeminiAPIError ''Model not authenticated'' ''auth''), [])
      else if \<not> truthy image_data \<or> \<not> truthy location
      then (Inl (GeminiAPIError ''Missing required image or location data'' ''validation''), [])
      else
       (case location of
          JList (latitude # longitude # rest) \<Rightarrow>
           (case prepare_image_for_api rt image_data of
              Inl img_error \<Rightarrow>
                (Inl (GeminiAPIError
                        (''Image processing failed: '' @ exception_text img_error) ''image''), [])
            | Inr processed_image \<Rightarrow>
               (let altitude = (case rest of [] \<Rightarrow> JInt 0 | a # r \<Rightarrow> a);
                    prompt = ComprehensivePrompt latitude longitude altitude
                in case image_open rt processed_image of
                     Some pil_error \<Rightarrow>
                       (Inl (GeminiAPIError (''Invalid image format: '' @ pil_error) ''image''), [])
                   | None \<Rightarrow>
                      (case generate_content rt prompt processed_image of
                         Inl api_error \<Rightarrow>
                           (Inl (categorize_api_error api_error), [(prompt, processed_image)])
                       | Inr resp \<Rightarrow>
                           (Inr (process_comprehensive_response rt resp),
                            [(prompt, processed_image)]))))
        | _ \<Rightarrow> (Inl (GeminiAPIError ''Invalid location format'' ''validation''), [])))"

text \<open>\<open>create_gemini_client\<close>: the key from the environment, then \<open>_authenticate\<close>.\<close>

definition create_gemini_client :: "runtime \<Rightarrow> py_exception + bool" where
  "create_gemini_client rt =
     (case getenv_api_key rt of
        None \<Rightarrow> Inl (GeminiAPIError ''GEMINI_API_KEY environment variable is required'' ''general'')
      | Some k \<Rightarrow>
          if k = [] then
            Inl (GeminiAPIError ''GEMINI_API_KEY environment variable is required'' ''general'')
          else (case configure rt k of
                  Some m \<Rightarrow> Inl (GeminiAPIError (''Authentication failed: '' @ m) ''general'')
                | None \<Rightarrow> Inr True))"

definition unexpected_error :: "(dict \<times> nat) \<times> (prompt \<times> bytes) list" where
  "unexpected_error =
     ((error_response ''Unable to analyze location at this time. Please try again.'' []
         ''An unexpected error occurred. Please try again.'', 500), [])"

definition missing_fields :: "(dict \<times> nat) \<times> (prompt \<times> bytes) list" where
  "missing_fields =
     ((error_response ''Missing required fields.'' []
         ''Image and location data are required.'', 400), [])"

text \<open>The part of \<open>answer\<close> after \<open>image\<close> and \<open>location\<close> have been read.\<close>

definition answer_fields ::
    "runtime \<Rightarrow> json \<Rightarrow> json \<Rightarrow> (dict \<times> nat) \<times> (prompt \<times> bytes) list" where
  "answer_fields rt image_data location =
     (case location of
        JList (lat # lng # rest) \<Rightarrow>
         (let alt = (case rest of [] \<Rightarrow> JInt 0 | a # r \<Rightarrow> a)
          in case create_gemini_client rt of
               Inl client_error \<Rightarrow>
                 ((error_response
                     ''Plant analysis service is currently unavailable. Please try again later.''
                     [] ''Service initialization failed. Please try again later.'', 503), [])
             | Inr model \<Rightarrow>
                (case analyze_image_and_recommend_plants rt model image_data (JList [lat, lng, alt]) of
                   (Inr comprehensive_response, calls) \<Rightarrow> ((comprehensive_response, 200), calls)
                 | (Inl (GeminiAPIError m error_type), calls) \<Rightarrow>
                     (case handle_api_errors (GeminiAPIError m error_type) of
                        Inr error_body \<Rightarrow> ((error_body, status_code error_type), calls)
                      | Inl e \<Rightarrow> (fst unexpected_error, calls))
                 | (Inl e, calls) \<Rightarrow> (fst unexpected_error, calls)))
      | _ \<Rightarrow>
         ((error_response ''Invalid location format.'' []
             ''Location must be a list with at least latitude and longitude.'', 400), []))"

text \<open>
  \<open>answer\<close>: the argument is what \<open>request.get_json()\<close> returned, \<open>None\<close> when it
  raised. The result is the response body, the status and the calls made to the
  external service. On a body that is not a dict, \<open>"image" in data\<close> is list
  membership or a substring test, and raises on a number; \<open>data["image"]\<close> raises.
\<close>

definition answer :: "runtime \<Rightarrow> json option \<Rightarrow> (dict \<times> nat) \<times> (prompt \<times> bytes) list" where
  "answer rt request_json =
     (case request_json of
        None \<Rightarrow> unexpected_error
      | Some data \<Rightarrow>
          if \<not> truthy data then
            ((error_response ''Invalid request data.'' [] ''No data provided in request.'', 400), [])
          else
           (case data of
              JDict d \<Rightarrow>
               (case map_of d ''image'' of
                  None \<Rightarrow> missing_fields
                | Some image_data \<Rightarrow>
                   (case map_of d ''location'' of
                      None \<Rightarrow> missing_fields
                    | Some location \<Rightarrow> answer_fields rt image_data location))
            | JList xs \<Rightarrow>
                if JStr ''image'' \<notin> set xs \<or> JStr ''location'' \<notin> set xs then missing_fields
                else unexpected_error
            | JStr s \<Rightarrow>
                if \<not> contains s ''image'' \<or> \<not> contains s ''location'' then missing_fields
                else unexpected_error
            | _ \<Rightarrow> unexpected_error))"

section \<open>Observations on a run\<close>

text \<open>
  The dict that \<open>_process_comprehensive_response\<close> parses out of a response, when it
  gets that far, and the list it then validates: the value under \<open>plants\<close> when that
  is a list, the fallback list it inserts when the key is missing, nothing otherwise.
\<close>

definition upstream_dict :: "runtime \<Rightarrow> response option \<Rightarrow> dict option" where
  "upstream_dict rt resp =
     (case resp of
        None \<Rightarrow> None
      | Some r \<Rightarrow>
         (case candidates r of
            Some (c # cs) \<Rightarrow>
              (case content c of
                 Some (TextPart t # ps) \<Rightarrow>
                   if t = [] \<or> strip t = [] then None
                   else (case json_loads rt t of Some (JDict d) \<Rightarrow> Some d | _ \<Rightarrow> None)
               | _ \<Rightarrow> None)
          | _ \<Rightarrow> None))"

definition plants_to_validate :: "dict \<Rightarrow> json list" where
  "plants_to_validate d =
     (case map_of d ''plants'' of
        None \<Rightarrow> get_fallback_plants
      | Some (JList raw) \<Rightarrow> raw
      | Some v \<Rightarrow> [])"

definition upstream_plants :: "runtime \<Rightarrow> response option \<Rightarrow> json list" where
  "upstream_plants rt resp =
     (case upstream_dict rt resp of None \<Rightarrow> [] | Some d \<Rightarrow> plants_to_validate d)"

definition name_and_confidence :: "json \<Rightarrow> json option \<times> json option" where
  "name_and_confidence p =
     (case p of
        JDict d \<Rightarrow> (map_of d ''name'', map_of d ''placement_confidence'')
      | _ \<Rightarrow> (None, None))"

text \<open>\<open>isinstance(location, list) and len(location) >= 2\<close>.\<close>

definition location_ok :: "json \<Rightarrow> bool" where
  "location_ok location = (case location of JList xs \<Rightarrow> 2 \<le> length xs | _ \<Rightarrow> False)"

text \<open>The value under a key is a string.\<close>

definition is_string_at :: "dict \<Rightarrow> string \<Rightarrow> bool" where
  "is_string_at p k = (case map_of p k of Some (JStr s) \<Rightarrow> True | _ \<Rightarrow> False)"

section \<open>The schema of an upstream document\<close>

text \<open>
  The schema as the round-trip property words it: the four required fields are
  non-empty strings, the three optional ones strings, the confidence a number in
  \<open>[0,1]\<close>; the list of plants may be empty.
\<close>

definition nonempty_string :: "json option \<Rightarrow> bool" where
  "nonempty_string v = (case v of Some (JStr s) \<Rightarrow> s \<noteq> [] | _ \<Rightarrow> False)"

definition any_string :: "json option \<Rightarrow> bool" where
  "any_string v = (case v of Some (JStr s) \<Rightarrow> True | _ \<Rightarrow> False)"

definition unit_number :: "json option \<Rightarrow> bool" where
  "unit_number v =
     (case v of
        Some (JFloat (Fin x)) \<Rightarrow> 0 \<le> x \<and> x \<le> 1
      | Some (JInt n) \<Rightarrow> 0 \<le> n \<and> n \<le> 1
      | _ \<Rightarrow> False)"

definition schema_plant :: "json \<Rightarrow> bool" where
  "schema_plant p =
     (case p of
        JDict d \<Rightarrow>
          nonempty_string (map_of d ''name'') \<and>
          nonempty_string (map_of d ''description'') \<and>
          nonempty_string (map_of d ''care_instructions'') \<and>
          nonempty_string (map_of d ''care_tips'') \<and>
          any_string (map_of d ''image'') \<and>
          any_string (map_of d ''AR_model'') \<and>
          any_string (map_of d ''superimposed_image'') \<and>
          unit_number (map_of d ''placement_confidence'')
      | _ \<Rightarrow> False)"

definition schema_document :: "dict \<Rightarrow> bool" where
  "schema_document d =
     (map_of d ''description'' \<noteq> None \<and>
      (case map_of d ''plants'' of
         Some (JList ps) \<Rightarrow> list_all schema_plant ps
       | _ \<Rightarrow> False))"

text \<open>
  The documents the pipeline does return unchanged: the required strings hold a
  character that is not white space, the confidence is a float, and there is at least
  one plant.
\<close>

definition nonblank_string :: "json option \<Rightarrow> bool" where
  "nonblank_string v = (case v of Some (JStr s) \<Rightarrow> strip s \<noteq> [] | _ \<Rightarrow> False)"

definition unit_float :: "json option \<Rightarrow> bool" where
  "unit_float v = (case v of Some (JFloat (Fin x)) \<Rightarrow> 0 \<le> x \<and> x \<le> 1 | _ \<Rightarrow> False)"

definition conforming_plant :: "json \<Rightarrow> bool" where
  "conforming_plant p =
     (case p of
        JDict d \<Rightarrow>
          nonblank_string (map_of d ''name'') \<and>
          nonblank_string (map_of d ''description'') \<and>
          nonblank_string (map_of d ''care_instructions'') \<and>
          nonblank_string (map_of d ''care_tips'') \<and>
          any_string (map_of d ''image'') \<and>
          any_string (map_of d ''AR_model'') \<and>
          any_string (map_of d ''superimposed_image'') \<and>
          unit_float (map_of d ''placement_confidence'')
      | _ \<Rightarrow> False)"

definition conforming_document :: "dict \<Rightarrow> bool" where
  "conforming_document d =
     (map_of d ''description'' \<noteq> None \<and>
      (case map_of d ''plants'' of
         Some (JList ps) \<Rightarrow> ps \<noteq> [] \<and> list_all conforming_plant ps
       | _ \<Rightarrow> False))"

section \<open>The error taxonomy in the words of the specification\<close>

datatype error_kind =
  Auth | Quota | Network | Malformed | ImageInvalid | ServiceUnavailable | Validation | General

text \<open>Fixed-priority matching on the lower-cased text, first match wins.\<close>

definition classification_order :: "(string list \<times> error_kind) list" where
  "classification_order =
     [(auth_terms, Auth), (quota_terms, Quota), (network_terms, Network),
      (format_terms, Malformed), (image_terms, ImageInvalid),
      (unavail_terms, ServiceUnavailable)]"

fun first_match :: "(string list \<times> error_kind) list \<Rightarrow> string \<Rightarrow> error_kind" where
  "first_match [] s = General"
| "first_match (row # rows) s = (if any_in (fst row) s then snd row else first_match rows s)"

definition spec_classify :: "string \<Rightarrow> error_kind" where
  "spec_classify text = first_match classification_order (lower text)"

text \<open>Auth and ImageInvalid carry no plants, every other kind the fallback list.\<close>

definition spec_plants :: "error_kind \<Rightarrow> json list" where
  "spec_plants k = (if k = Auth \<or> k = ImageInvalid then [] else get_fallback_plants)"

fun spec_status :: "error_kind \<Rightarrow> nat" where
  "spec_status Auth = 401"
| "spec_status Quota = 429"
| "spec_status Network = 503"
| "spec_status ServiceUnavailable = 503"
| "spec_status Validation = 400"
| "spec_status ImageInvalid = 400"
| "spec_status General = 500"
| "spec_status Malformed = 500"

text \<open>
  The fallback content of each kind that text matching can assign (it never assigns
  Validation): the user-facing description and error message.
\<close>

fun kind_description :: "error_kind \<Rightarrow> string" where
  "kind_description Auth =
     ''Unable to authenticate with plant analysis service. Please try again later.''"
| "kind_description Quota =
     ''Plant analysis service is currently experiencing high demand. Please try again in a few minutes.''"
| "kind_description Network =
     ''Unable to connect to plant analysis service. Please check your internet connection and try again.''"
| "kind_description Malformed =
     ''Plant analysis completed, but response formatting failed. Basic recommendations provided.''"
| "kind_description ImageInvalid =
     ''Unable to process the uploaded image. Please try with a different image.''"
| "kind_description ServiceUnavailable =
     ''Plant analysis service is temporarily unavailable. Basic recommendations provided.''"
| "kind_description General =
     ''Plant analysis encountered an issue, but basic recommendations are available.''"
| "kind_description Validation = []"

fun kind_error :: "error_kind \<Rightarrow> string" where
  "kind_error Auth = ''Authentication failed. Please contact support if this persists.''"
| "kind_error Quota =
     ''Service temporarily unavailable due to high demand. Please try again shortly.''"
| "kind_error Network =
     ''Network connection issue. Please check your internet connection and try again.''"
| "kind_error Malformed = ''Response processing issue. Basic plant suggestions provided.''"
| "kind_error ImageInvalid =
     ''Image processing failed. Please try uploading a different image.''"
| "kind_error ServiceUnavailable =
     ''Analysis service temporarily unavailable. Please try again later.''"
| "kind_error General =
     ''Analysis service encountered an issue. Basic plant suggestions provided.''"
| "kind_error Validation = []"

definition kind_response :: "error_kind \<Rightarrow> dict" where
  "kind_response k =
     [(''description'', JStr (kind_description k)), (''plants'', JList (spec_plants k)),
      (''error'', JStr (kind_error k))]"

text \<open>The kind that an \<open>error_type\<close> tag of the code names.\<close>

definition kind_of_error_type :: "string \<Rightarrow> error_kind" where
  "kind_of_error_type t =
     (if t = ''auth'' then Auth
      else if t = ''quota'' then Quota
      else if t = ''network'' then Network
      else if t = ''api'' then ServiceUnavailable
      else if t = ''validation'' then Validation
      else if t = ''image'' then ImageInvalid
      else if t = ''malformed'' then Malformed
      else General)"

text \<open>What the image library says of decoded bytes: the text of the exception of
  \<open>Image.open\<close> or, when that succeeds, of \<open>verify\<close>; \<open>None\<close> when both succeed.\<close>

definition library_verdict :: "runtime \<Rightarrow> bytes \<Rightarrow> string option" where
  "library_verdict rt image_bytes =
     (case image_open rt image_bytes of
        Some m \<Rightarrow> Some m
      | None \<Rightarrow> image_verify rt image_bytes)"

section \<open>Sample inputs\<close>

definition text_response :: "string \<Rightarrow> response" where
  "text_response t = \<lparr>candidates = Some [\<lparr>content = Some [TextPart t]\<rparr>]\<rparr>"

text \<open>A runtime whose parser answers \<open>loads\<close>, whose decoder gives \<open>decoded\<close>, whose
  image library answers \<open>opened\<close>, and whose external service returns no response.\<close>

definition sample_runtime ::
    "(string \<Rightarrow> json option) \<Rightarrow> bytes \<Rightarrow> string option \<Rightarrow> runtime" where
  "sample_runtime loads decoded opened =
     \<lparr>float_of_str = (\<lambda>s. None), json_loads = loads, b64decode = (\<lambda>s. Inr decoded),
      image_open = (\<lambda>b. opened), image_verify = (\<lambda>b. None), getenv_api_key = Some ''key'',
      configure = (\<lambda>k. None), generate_content = (\<lambda>p b. Inr None)\<rparr>"

definition sample_plant :: "json \<Rightarrow> json \<Rightarrow> json" where
  "sample_plant name confidence =
     JDict
       [(''name'', name),
        (''image'', JStr ''https://example.com/fern.jpg''),
        (''superimposed_image'', JStr ''''),
        (''description'', JStr ''Shade loving fern.''),
        (''care_instructions'', JStr ''Water weekly.''),
        (''care_tips'', JStr ''Mist the leaves.''),
        (''AR_model'', JStr ''https://example.com/fern.glb''),
        (''placement_confidence'', confidence)]"

definition sample_document :: "json list \<Rightarrow> dict" where
  "sample_document ps = [(''description'', JStr ''A shaded balcony.''), (''plants'', JList ps)]"

definition fern :: json where
  "fern = sample_plant (JStr ''Fern'') (JFloat (Fin 0.9))"

definition six_plants :: "json list" where
  "six_plants = [fern, fern, fern, fern, fern, fern]"

definition oversized_bytes :: bytes where
  "oversized_bytes = replicate (Suc max_image_bytes) 0"

text \<open>What the parser returns when the text of the response decodes to \<open>doc\<close>.\<close>

definition returned_for :: "dict \<Rightarrow> dict" where
  "returned_for doc =
     process_comprehensive_response (sample_runtime (\<lambda>s. Some (JDict doc)) [] None)
       (Some (text_response ''{}''))"

section \<open>Basic facts\<close>

lemma map_of_dict_set:
  "map_of (dict_set k v d) k' = (if k' = k then Some v else map_of d k')"
  by (induction d) auto

lemma dict_set_same: "map_of d k = Some v \<Longrightarrow> dict_set k v d = d"
  by (induction d) (auto split: if_splits)

lemma strip_Nil: "strip [] = []"
  by (simp add: strip_def)

lemma strip_empty_all_space:
  assumes "strip t = []"
  shows "\<forall>c \<in> set t. is_space c"
proof -
  from assms have "dropWhile is_space (rev (dropWhile is_space t)) = []"
    by (simp add: strip_def)
  then have "\<forall>c \<in> set (dropWhile is_space t). is_space c"
    by simp
  moreover have "\<forall>c \<in> set (takeWhile is_space t). is_space c"
    by (auto dest: set_takeWhileD)
  moreover have "set t = set (takeWhile is_space t) \<union> set (dropWhile is_space t)"
    by (metis set_append takeWhile_dropWhile_id)
  ultimately show ?thesis by auto
qed

lemma startswith_hd: "startswith s (k # ks) \<Longrightarrow> k \<in> set s"
  by (cases s) auto

lemma contains_hd: "contains s (k # ks) \<Longrightarrow> k \<in> set s"
  by (induction s) (auto dest: startswith_hd)

lemma lower_char_space: "is_space c \<Longrightarrow> lower_char c = c"
  by (auto simp: is_space_def lower_char_def Let_def)

lemma no_space_keyword:
  assumes "\<forall>c \<in> set s. is_space c" and "\<not> is_space k"
  shows "\<not> contains s (k # ks)"
  using assms contains_hd by blast

lemma blank_has_no_keyword:
  assumes "strip t = []"
  shows "\<not> any_in fallback_keywords (lower t)"
proof -
  have sp: "\<forall>c \<in> set (lower t). is_space c"
    using strip_empty_all_space [OF assms] by (simp add: lower_def lower_char_space)
  have "\<not> contains (lower t) ''plant''"
    by (rule no_space_keyword [OF sp]) (simp add: is_space_def)
  moreover have "\<not> contains (lower t) ''grow''"
    by (rule no_space_keyword [OF sp]) (simp add: is_space_def)
  moreover have "\<not> contains (lower t) ''suitable''"
    by (rule no_space_keyword [OF sp]) (simp add: is_space_def)
  moreover have "\<not> contains (lower t) ''recommend''"
    by (rule no_space_keyword [OF sp]) (simp add: is_space_def)
  ultimately show ?thesis
    by (simp add: any_in_def fallback_keywords_def)
qed

lemma empty_text_message_no_keyword:
  "\<not> any_in fallback_keywords (lower ''Empty response text'')"
  by code_simp

section \<open>The fallback content\<close>

lemma fallback_plants_nonempty: "get_fallback_plants \<noteq> []"
  by (simp add: get_fallback_plants_def)

lemma fallback_plants_length: "length get_fallback_plants = 3"
  by (simp add: get_fallback_plants_def)

lemma fallback_response_plants:
  "map_of (create_comprehensive_fallback_response t) ''plants'' = Some (JList get_fallback_plants)"
  by (simp add: create_comprehensive_fallback_response_def Let_def)

lemma fallback_response_description:
  "map_of (create_comprehensive_fallback_response t) ''description'' \<noteq> None"
  by (simp add: create_comprehensive_fallback_response_def Let_def)

section \<open>Records that validation leaves alone\<close>

lemma nonblank_stringE:
  assumes "nonblank_string v"
  obtains s where "v = Some (JStr s)" and "strip s \<noteq> []" and "s \<noteq> []"
proof -
  from assms obtain s where s: "v = Some (JStr s)" "strip s \<noteq> []"
    by (auto simp: nonblank_string_def split: option.splits json.splits)
  then have "s \<noteq> []"
    using strip_Nil by auto
  with s show thesis
    using that by blast
qed

lemma any_stringE:
  assumes "any_string v"
  obtains s where "v = Some (JStr s)"
  using assms by (auto simp: any_string_def split: option.splits json.splits)

lemma unit_floatE:
  assumes "unit_float v"
  obtains x where "v = Some (JFloat (Fin x))" and "0 \<le> x" and "x \<le> 1"
  using assms by (auto simp: unit_float_def split: option.splits json.splits pyfloat.splits)

lemma fix_required_field_noop:
  "nonblank_string (map_of d k) \<Longrightarrow> fix_required_field d (k, dflt) = d"
  by (erule nonblank_stringE) (simp add: fix_required_field_def)

lemma fix_blank_field_noop:
  "nonblank_string (map_of d k) \<Longrightarrow> fix_blank_field d (k, dflt) = Inr d"
  by (erule nonblank_stringE) (simp add: fix_blank_field_def)

lemma setdefault_noop: "any_string (map_of d k) \<Longrightarrow> setdefault k v d = d"
  by (erule any_stringE) (simp add: setdefault_def dict_has_def)

lemma fix_superimposed_image_noop:
  "any_string (map_of d ''superimposed_image'') \<Longrightarrow> fix_superimposed_image d = d"
  by (erule any_stringE) (simp add: fix_superimposed_image_def)

lemma fix_confidence_noop:
  "unit_float (map_of d ''placement_confidence'') \<Longrightarrow> fix_confidence sf d = Inr d"
  by (erule unit_floatE) (simp add: fix_confidence_def dict_set_same)

lemma validate_conforming:
  assumes "conforming_plant (JDict d)"
  shows "validate_comprehensive_plant_data sf (JDict d) = Inr d"
proof -
  from assms have
    n: "nonblank_string (map_of d ''name'')" "nonblank_string (map_of d ''description'')"
       "nonblank_string (map_of d ''care_instructions'')" "nonblank_string (map_of d ''care_tips'')"
    and s: "any_string (map_of d ''image'')" "any_string (map_of d ''AR_model'')"
       "any_string (map_of d ''superimposed_image'')"
    and c: "unit_float (map_of d ''placement_confidence'')"
    by (simp_all add: conforming_plant_def)
  have "foldl fix_required_field d required_fields = d"
    by (simp add: required_fields_def fix_required_field_noop n)
  moreover have "fix_blank_fields d required_fields = Inr d"
    by (simp add: required_fields_def fix_blank_field_noop n)
  ultimately show ?thesis
    by (simp add: validate_comprehensive_plant_data_def setdefault_noop
        fix_superimposed_image_noop fix_confidence_noop s c)
qed

lemma validated_plants_conforming:
  "list_all conforming_plant ps \<Longrightarrow> validated_plants sf ps = ps"
proof (induction ps)
  case Nil
  show ?case by simp
next
  case (Cons p ps)
  then obtain d where "p = JDict d"
    by (cases p) (simp_all add: conforming_plant_def)
  with Cons show ?case
    by (simp add: validate_conforming)
qed

lemma validated_plants_length: "length (validated_plants sf raw) \<le> length raw"
  by (induction raw) (auto split: sum.splits)

lemma fallback_plants_conforming: "list_all conforming_plant get_fallback_plants"
  by (simp add: get_fallback_plants_def conforming_plant_def nonblank_string_def
      any_string_def unit_float_def strip_def is_space_def)

lemma validated_fallback_plants: "validated_plants sf get_fallback_plants = get_fallback_plants"
  by (rule validated_plants_conforming [OF fallback_plants_conforming])

section \<open>What the response parser returns\<close>

lemma process_parsed_plants:
  "map_of (process_parsed rt d) ''plants'' =
     Some (JList (if validated_plants (float_of_str rt) (plants_to_validate d) = []
                  then get_fallback_plants
                  else validated_plants (float_of_str rt) (plants_to_validate d)))"
  unfolding process_parsed_def plants_to_validate_def Let_def dict_has_def
  by (simp add: map_of_dict_set validated_fallback_plants fallback_plants_nonempty
      split: option.splits json.splits)

lemma process_parsed_description:
  "map_of (process_parsed rt d) ''description'' \<noteq> None"
  unfolding process_parsed_def Let_def dict_has_def
  by (simp add: map_of_dict_set split: option.splits json.splits)

lemma process_cases:
  "(\<exists>d. upstream_dict rt resp = Some d \<and>
        process_comprehensive_response rt resp = process_parsed rt d) \<or>
   (upstream_dict rt resp = None \<and>
    (\<exists>t. process_comprehensive_response rt resp = create_comprehensive_fallback_response t))"
  unfolding process_comprehensive_response_def upstream_dict_def
  by (auto split: option.splits list.splits part.splits json.splits)

lemma process_plants:
  "map_of (process_comprehensive_response rt resp) ''plants'' =
     Some (JList (if validated_plants (float_of_str rt) (upstream_plants rt resp) = []
                  then get_fallback_plants
                  else validated_plants (float_of_str rt) (upstream_plants rt resp)))"
proof (cases "upstream_dict rt resp")
  case None
  with process_cases [of rt resp] obtain t where
    "process_comprehensive_response rt resp = create_comprehensive_fallback_response t"
    by auto
  with None show ?thesis
    by (simp add: upstream_plants_def fallback_response_plants)
next
  case (Some d)
  with process_cases [of rt resp] have
    "process_comprehensive_response rt resp = process_parsed rt d"
    by auto
  with Some show ?thesis
    by (simp add: upstream_plants_def process_parsed_plants)
qed

lemma process_description:
  "map_of (process_comprehensive_response rt resp) ''description'' \<noteq> None"
proof (cases "upstream_dict rt resp")
  case None
  with process_cases [of rt resp] obtain t where
    "process_comprehensive_response rt resp = create_comprehensive_fallback_response t"
    by auto
  then show ?thesis
    by (simp add: fallback_response_description)
next
  case (Some d)
  with process_cases [of rt resp] have
    "process_comprehensive_response rt resp = process_parsed rt d"
    by auto
  then show ?thesis
    by (simp add: process_parsed_description)
qed

lemma process_parsed_conforming:
  assumes "conforming_document d"
  shows "process_parsed rt d = d"
proof -
  from assms obtain ps where
    p: "map_of d ''plants'' = Some (JList ps)" "ps \<noteq> []" "list_all conforming_plant ps"
    and "map_of d ''description'' \<noteq> None"
    by (auto simp: conforming_document_def split: option.splits json.splits)
  then show ?thesis
    by (simp add: process_parsed_def dict_has_def Let_def validated_plants_conforming
        dict_set_same)
qed

lemma text_response_parts:
  "candidates (text_response t) = Some [\<lparr>content = Some [TextPart t]\<rparr>]"
  "content \<lparr>content = Some [TextPart t]\<rparr> = Some [TextPart t]"
  by (simp_all add: text_response_def)

lemma sample_runtime_fields:
  "json_loads (sample_runtime loads decoded opened) = loads"
  "float_of_str (sample_runtime loads decoded opened) = (\<lambda>s. None)"
  "b64decode (sample_runtime loads decoded opened) = (\<lambda>s. Inr decoded)"
  "image_open (sample_runtime loads decoded opened) = (\<lambda>b. opened)"
  "image_verify (sample_runtime loads decoded opened) = (\<lambda>b. None)"
  by (simp_all add: sample_runtime_def)

lemma fern_conforming: "conforming_plant fern"
  by (simp add: fern_def sample_plant_def conforming_plant_def nonblank_string_def
      any_string_def unit_float_def strip_def is_space_def)

section \<open>Sample runs\<close>

lemma braces_not_blank: "strip ''{}'' \<noteq> []"
  by (simp add: strip_def is_space_def)

lemma returned_for_conforming:
  assumes "conforming_document d"
  shows "returned_for d = d"
  unfolding returned_for_def
  using braces_not_blank
  by (simp add: process_comprehensive_response_def text_response_def sample_runtime_fields
      process_parsed_conforming [OF assms])

lemma fern_document_conforming: "conforming_document (sample_document [fern])"
  by (simp add: conforming_document_def sample_document_def fern_conforming)

lemma six_plants_conforming: "conforming_document (sample_document six_plants)"
  by (simp add: conforming_document_def sample_document_def six_plants_def fern_conforming)

lemma dropped_records:
  "validated_plants (\<lambda>s. None)
     [JStr ''fern'', JInt 3, sample_plant (JStr ''Fern'') (JInt (2 ^ 1024))] = []"
  by (simp add: validate_comprehensive_plant_data_def sample_plant_def required_fields_def
      fix_required_field_def setdefault_def dict_has_def fix_superimposed_image_def
      fix_confidence_def float_overflow_bound_def)

lemma empty_list_run:
  "returned_for (sample_document []) = sample_document get_fallback_plants"
  by code_simp

lemma blank_name_run:
  "returned_for (sample_document [sample_plant (JStr '' '') (JFloat (Fin 0.9))]) =
     sample_document [sample_plant (JStr ''Unknown Plant'') (JFloat (Fin 0.9))]"
  by code_simp

lemma integer_confidence_run:
  "returned_for (sample_document [sample_plant (JStr ''Fern'') (JInt 1)]) =
     sample_document [sample_plant (JStr ''Fern'') (JFloat (Fin 1))]"
  by code_simp

lemma sample_documents_in_schema:
  "schema_document (sample_document [])"
  "schema_document (sample_document [sample_plant (JStr '' '') (JFloat (Fin 0.9))])"
  "schema_document (sample_document [sample_plant (JStr ''Fern'') (JInt 1)])"
  by (simp_all add: schema_document_def sample_document_def schema_plant_def sample_plant_def
      nonempty_string_def any_string_def unit_number_def)

lemma sample_keyword: "any_in fallback_keywords (lower ''Try a Plant'')"
  by code_simp

section \<open>Image preparation and classification\<close>

lemma size_message_too_large: "contains ''Image file too large (max 10MB)'' ''too large''"
  by simp

lemma validate_image_cases:
  "validate_image rt image_bytes =
     (case library_verdict rt image_bytes of
        None \<Rightarrow>
          if max_image_bytes < length image_bytes
          then Inl (GeminiAPIError ''Image file too large (max 10MB)'' ''image'')
          else Inr image_bytes
      | Some m \<Rightarrow>
          if contains m ''too large'' then Inl (OtherException m)
          else Inl (GeminiAPIError (''Invalid or corrupted image format: '' @ m) ''image''))"
  unfolding validate_image_def open_verify_and_measure_def exception_text_def
    library_verdict_def
  using size_message_too_large
  by (simp split: option.splits)

lemma prepare_image_cases:
  assumes "s \<noteq> []"
    and "strip_data_url s = Inr payload"
    and "b64decode rt payload = Inr image_bytes"
  shows "prepare_image_for_api rt (JStr s) =
     (case library_verdict rt image_bytes of
        None \<Rightarrow>
          if max_image_bytes < length image_bytes
          then Inl (GeminiAPIError ''Image file too large (max 10MB)'' ''image'')
          else Inr image_bytes
      | Some m \<Rightarrow>
          if contains m ''too large''
          then Inl (GeminiAPIError (''Failed to prepare image: '' @ m) ''image'')
          else Inl (GeminiAPIError (''Invalid or corrupted image format: '' @ m) ''image''))"
proof -
  have "prepare_image_body rt (JStr s) = validate_image rt image_bytes"
    using assms by (simp add: prepare_image_body_def)
  then show ?thesis
    by (simp add: prepare_image_for_api_def validate_image_cases exception_text_def
        split: option.splits)
qed

lemma oversized_length: "max_image_bytes < length oversized_bytes"
  by (simp add: oversized_bytes_def)

lemma plain_payload: "strip_data_url ''abc'' = Inr ''abc''"
  by (simp add: strip_data_url_def)

lemma any_in_member: "t \<in> set ts \<Longrightarrow> contains s t \<Longrightarrow> any_in ts s"
  by (auto simp: any_in_def list_ex_iff)

lemma classify_cases:
  "spec_classify text =
     (let l = lower text
      in if any_in auth_terms l then Auth
         else if any_in quota_terms l then Quota
         else if any_in network_terms l then Network
         else if any_in format_terms l then Malformed
         else if any_in image_terms l then ImageInvalid
         else if any_in unavail_terms l then ServiceUnavailable
         else General)"
  by (simp add: spec_classify_def classification_order_def Let_def)

lemma handle_api_errors_refines:
  assumes "py_str error = Inr text"
  shows "handle_api_errors error = Inr (kind_response (spec_classify text))"
  using assms
  by (simp add: handle_api_errors_def classify_cases kind_response_def error_response_def
      spec_plants_def Let_def)

lemma handle_api_errors_returns:
  assumes "py_str error = Inr text \<or> (\<exists>fe t. py_str error = Inl fe \<and> py_str fe = Inr t)"
  shows "\<exists>d ps e. handle_api_errors error =
       Inr [(''description'', JStr d), (''plants'', JList ps), (''error'', JStr e)] \<and>
     d \<noteq> [] \<and> e \<noteq> []"
  using assms
  unfolding handle_api_errors_def error_response_def Let_def
  by auto

lemma quota_sample: "spec_classify ''Quota exceeded: API rate limit reached'' = Quota"
  by code_simp

lemma bad_url_text: "spec_classify ''Image processing failed: Malformed data URL format'' = Malformed"
  by code_simp

lemma bad_url_analyze:
  "analyze_image_and_recommend_plants (sample_runtime (\<lambda>s. None) [] None) True
     (JStr ''data:image/png;base64'') (JList [JInt 40, JInt 74, JInt 0]) =
     (Inl (GeminiAPIError ''Image processing failed: Malformed data URL format'' ''image''), [])"
  by code_simp

lemma bad_url_answer:
  "answer (sample_runtime (\<lambda>s. None) [] None)
     (Some (JDict [(''image'', JStr ''data:image/png;base64''),
                   (''location'', JList [JInt 40, JInt 74])])) =
     ((error_response
        ''Plant analysis completed, but response formatting failed. Basic recommendations provided.''
        get_fallback_plants
        ''Response processing issue. Basic plant suggestions provided.'', 400), [])"
  by code_simp

section \<open>What validation can do to a record\<close>

text \<open>
  After the first loop the four required fields are strings, so the last loop cannot
  fail: validating a dict either succeeds, with a confidence that is NaN or a number
  in \<open>[0,1]\<close>, or stops at the OverflowError of \<open>float()\<close>.
\<close>

lemma is_string_at_iff: "is_string_at p k \<longleftrightarrow> (\<exists>s. map_of p k = Some (JStr s))"
  by (auto simp: is_string_at_def split: option.splits json.splits)

lemma is_string_at_dict_set:
  "is_string_at p k \<Longrightarrow> is_str v \<or> k' \<noteq> k \<Longrightarrow> is_string_at (dict_set k' v p) k"
  by (cases v) (auto simp: is_string_at_iff map_of_dict_set)

lemma is_strE: "is_str v \<Longrightarrow> \<exists>s. v = JStr s"
  by (cases v) simp_all

lemma fix_required_field_sets: "is_string_at (fix_required_field p (k, dflt)) k"
  by (auto simp: fix_required_field_def is_string_at_iff map_of_dict_set
      dest: is_strE split: option.splits)

lemma fix_required_field_keeps:
  "is_string_at p k \<Longrightarrow> is_string_at (fix_required_field p fd) k"
  by (auto simp: fix_required_field_def is_string_at_iff map_of_dict_set split: option.splits)

lemma required_strings_after_first_loop:
  "list_all (is_string_at (foldl fix_required_field p required_fields)) (map fst required_fields)"
  by (simp add: required_fields_def fix_required_field_sets fix_required_field_keeps)

lemma setdefault_keeps: "is_string_at p k \<Longrightarrow> is_string_at (setdefault k' v p) k"
  by (auto simp: setdefault_def dict_has_def is_string_at_iff map_of_dict_set)

lemma fix_superimposed_image_keeps:
  "is_string_at p k \<Longrightarrow> is_string_at (fix_superimposed_image p) k"
  by (auto simp: fix_superimposed_image_def is_string_at_iff map_of_dict_set
      split: option.splits json.splits)

lemma fix_confidence_keeps:
  "fix_confidence sf p = Inr p' \<Longrightarrow> k \<noteq> ''placement_confidence'' \<Longrightarrow>
   is_string_at p k \<Longrightarrow> is_string_at p' k"
  by (auto simp: fix_confidence_def is_string_at_iff map_of_dict_set
      split: option.splits sum.splits float_error.splits if_splits)

lemma fix_blank_field_ok:
  "is_string_at p (fst fd) \<Longrightarrow> \<exists>p'. fix_blank_field p fd = Inr p' \<and>
     (\<forall>k. is_string_at p k \<longrightarrow> is_string_at p' k) \<and>
     (\<forall>k. k \<noteq> fst fd \<longrightarrow> map_of p' k = map_of p k)"
  by (auto simp: fix_blank_field_def is_string_at_iff map_of_dict_set)

lemma fix_blank_fields_ok:
  "list_all (is_string_at p) (map fst fds) \<Longrightarrow>
   \<exists>p'. fix_blank_fields p fds = Inr p' \<and>
     (\<forall>k. k \<notin> fst ` set fds \<longrightarrow> map_of p' k = map_of p k)"
proof (induction fds arbitrary: p)
  case Nil
  show ?case by simp
next
  case (Cons fd fds)
  then have "is_string_at p (fst fd)" by simp
  from fix_blank_field_ok [OF this] obtain p1 where
    p1: "fix_blank_field p fd = Inr p1"
      "\<forall>k. is_string_at p k \<longrightarrow> is_string_at p1 k"
      "\<forall>k. k \<noteq> fst fd \<longrightarrow> map_of p1 k = map_of p k"
    by blast
  from Cons.prems p1(2) have "list_all (is_string_at p1) (map fst fds)"
    by (simp add: list_all_iff)
  from Cons.IH [OF this] obtain p' where
    "fix_blank_fields p1 fds = Inr p'"
    "\<forall>k. k \<notin> fst ` set fds \<longrightarrow> map_of p' k = map_of p1 k"
    by blast
  with p1 show ?case by auto
qed

lemma fix_confidence_stored:
  "fix_confidence sf p = Inr p' \<Longrightarrow>
   \<exists>c. map_of p' ''placement_confidence'' = Some (JFloat c) \<and>
       (c = Fin 0.5 \<or> (\<not> float_lt c (Fin 0) \<and> \<not> float_lt (Fin 1) c))"
  by (auto simp: fix_confidence_def map_of_dict_set
      split: option.splits sum.splits float_error.splits if_splits)

lemma unit_or_nan:
  assumes "c = Fin 0.5 \<or> (\<not> float_lt c (Fin 0) \<and> \<not> float_lt (Fin 1) c)"
  shows "c = NaN \<or> (\<exists>x. c = Fin x \<and> 0 \<le> x \<and> x \<le> 1)"
  using assms by (cases c) auto

lemma fix_confidence_result:
  assumes "fix_confidence sf p = Inr p'"
  shows "\<exists>c. map_of p' ''placement_confidence'' = Some (JFloat c) \<and>
       (c = NaN \<or> (\<exists>x. c = Fin x \<and> 0 \<le> x \<and> x \<le> 1))"
  using fix_confidence_stored [OF assms] unit_or_nan by blast

lemma fix_confidence_error:
  "fix_confidence sf p = Inl e \<Longrightarrow> e = OverflowError ''int too large to convert to float''"
  by (auto simp: fix_confidence_def
      split: option.splits sum.splits float_error.splits if_splits)

lemma validate_dict_cases:
  "(\<exists>p'. validate_comprehensive_plant_data sf (JDict p) = Inr p' \<and>
      (\<exists>c. map_of p' ''placement_confidence'' = Some (JFloat c) \<and>
           (c = NaN \<or> (\<exists>x. c = Fin x \<and> 0 \<le> x \<and> x \<le> 1))))
   \<or> validate_comprehensive_plant_data sf (JDict p) =
        Inl (OverflowError ''int too large to convert to float'')"
proof -
  let ?p4 = "fix_superimposed_image (setdefault ''AR_model'' (JStr '''')
      (setdefault ''image'' (JStr '''') (foldl fix_required_field p required_fields)))"
  have v: "validate_comprehensive_plant_data sf (JDict p) =
      (case fix_confidence sf ?p4 of Inl e \<Rightarrow> Inl e
       | Inr p5 \<Rightarrow> fix_blank_fields p5 required_fields)"
    by (simp add: validate_comprehensive_plant_data_def Let_def)
  have s4: "list_all (is_string_at ?p4) (map fst required_fields)"
    using required_strings_after_first_loop [of p]
    by (simp add: list_all_iff setdefault_keeps fix_superimposed_image_keeps)
  show ?thesis
  proof (cases "fix_confidence sf ?p4")
    case (Inl e)
    with v fix_confidence_error [OF Inl] show ?thesis by simp
  next
    case (Inr p5)
    have "list_all (is_string_at p5) (map fst required_fields)"
      using s4 fix_confidence_keeps [OF Inr]
      by (simp add: required_fields_def)
    from fix_blank_fields_ok [OF this] obtain p' where
      p': "fix_blank_fields p5 required_fields = Inr p'"
        "\<forall>k. k \<notin> fst ` set required_fields \<longrightarrow> map_of p' k = map_of p5 k"
      by blast
    then have "map_of p' ''placement_confidence'' = map_of p5 ''placement_confidence''"
      by (simp add: required_fields_def)
    with fix_confidence_result [OF Inr] p'(1) v Inr show ?thesis
      by simp
  qed
qed

section \<open>A response that reaches the parser is a success\<close>

lemma analyze_returns_parser_result:
  assumes "truthy image_data"
    and "prepare_image_for_api rt image_data = Inr b"
    and "image_open rt b = None"
    and "generate_content rt
           (ComprehensivePrompt lat lng (case rest of [] \<Rightarrow> JInt 0 | a # r \<Rightarrow> a)) b = Inr resp"
  shows "analyze_image_and_recommend_plants rt True image_data (JList (lat # lng # rest)) =
           (Inr (process_comprehensive_response rt resp),
            [(ComprehensivePrompt lat lng (case rest of [] \<Rightarrow> JInt 0 | a # r \<Rightarrow> a), b)])"
  using assms by (simp add: analyze_image_and_recommend_plants_def Let_def)

lemma answer_returns_parser_result:
  assumes "map_of d ''image'' = Some image_data"
    and "map_of d ''location'' = Some (JList (lat # lng # rest))"
    and "create_gemini_client rt = Inr True"
    and "truthy image_data"
    and "prepare_image_for_api rt image_data = Inr b"
    and "image_open rt b = None"
    and "generate_content rt
           (ComprehensivePrompt lat lng (case rest of [] \<Rightarrow> JInt 0 | a # r \<Rightarrow> a)) b = Inr resp"
  shows "answer rt (Some (JDict d)) =
           ((process_comprehensive_response rt resp, 200),
            [(ComprehensivePrompt lat lng (case rest of [] \<Rightarrow> JInt 0 | a # r \<Rightarrow> a), b)])"
proof -
  let ?alt = "case rest of [] \<Rightarrow> JInt 0 | a # r \<Rightarrow> a"
  have "d \<noteq> []" using assms(1) by auto
  moreover have "analyze_image_and_recommend_plants rt True image_data (JList [lat, lng, ?alt]) =
      (Inr (process_comprehensive_response rt resp), [(ComprehensivePrompt lat lng ?alt, b)])"
    using analyze_returns_parser_result [OF assms(4) assms(5) assms(6), of lat lng "[?alt]" resp]
      assms(7) by simp
  ultimately show ?thesis
    using assms(1,2,3)
    by (simp add: answer_def answer_fields_def Let_def)
qed

section \<open>The properties\<close>

text \<open>
  C1. Whatever the raw response is, the dict returned by
  \<open>_process_comprehensive_response\<close> has a \<open>description\<close> key and a \<open>plants\<close> key, and
  the value under \<open>plants\<close> is a list that is not empty; so description and plants
  are never both empty.
\<close>

theorem process_never_returns_nothing:
  "\<exists>description plants.
     map_of (process_comprehensive_response rt resp) ''description'' = Some description \<and>
     map_of (process_comprehensive_response rt resp) ''plants'' = Some (JList plants) \<and>
     plants \<noteq> []"
  using process_description [of rt resp] process_plants [of rt resp] fallback_plants_nonempty
  by (cases "validated_plants (float_of_str rt) (upstream_plants rt resp) = []") auto

theorem process_never_returns_nothing_witness:
  "\<exists>description plants.
     map_of (process_comprehensive_response
               (sample_runtime (\<lambda>s. Some (JDict [(''description'', JStr ''''), (''plants'', JList [])]))
                  [] None)
               (Some (text_response ''{}''))) ''description'' = Some description \<and>
     map_of (process_comprehensive_response
               (sample_runtime (\<lambda>s. Some (JDict [(''description'', JStr ''''), (''plants'', JList [])]))
                  [] None)
               (Some (text_response ''{}''))) ''plants'' = Some (JList plants) \<and>
     plants \<noteq> []"
  by (rule process_never_returns_nothing)

text \<open>
  C2, as amended. For every failure whose text can be taken, \<open>handle_api_errors\<close>
  returns the fallback content of exactly one kind, chosen by fixed-priority substring
  matching on the lower-cased text, first match wins, in the order auth, quota,
  network, format (Malformed), image, unavailable, else general; text matching never
  assigns Validation, and the seven contents differ pairwise. The plants are empty for
  Auth and ImageInvalid and the fallback list for every other kind. So a text
  containing \<open>permission\<close> gets the Auth content, one containing \<open>quota\<close> the Quota
  content unless an auth term occurs, one containing \<open>timeout\<close> the Network content
  unless an auth or quota term occurs. The transport status is not derived from that
  match: \<open>answer\<close> takes it from the \<open>error_type\<close> tag given where the error was raised,
  auth 401, quota 429, network and api 503, validation and image 400, anything else
  500.
\<close>

theorem classifier_content_and_status:
  assumes "py_str error = Inr text"
  shows "handle_api_errors error = Inr (kind_response (spec_classify text))
       \<and> spec_classify text \<noteq> Validation
       \<and> distinct (map kind_description
            [Auth, Quota, Network, Malformed, ImageInvalid, ServiceUnavailable, General])
       \<and> map_of (kind_response (spec_classify text)) ''plants'' =
            Some (JList (if spec_classify text = Auth \<or> spec_classify text = ImageInvalid
                         then [] else get_fallback_plants))
       \<and> status_code error_type = spec_status (kind_of_error_type error_type)
       \<and> (contains (lower text) ''permission'' \<longrightarrow>
            handle_api_errors error = Inr (kind_response Auth))
       \<and> (contains (lower text) ''quota'' \<and> \<not> any_in auth_terms (lower text) \<longrightarrow>
            handle_api_errors error = Inr (kind_response Quota))
       \<and> (contains (lower text) ''timeout'' \<and> \<not> any_in auth_terms (lower text) \<and>
          \<not> any_in quota_terms (lower text) \<longrightarrow>
            handle_api_errors error = Inr (kind_response Network))"
proof -
  note code = handle_api_errors_refines [OF assms]
  have never: "spec_classify text \<noteq> Validation"
    by (simp add: classify_cases Let_def)
  have differ: "distinct (map kind_description
            [Auth, Quota, Network, Malformed, ImageInvalid, ServiceUnavailable, General])"
    by simp
  have plants: "map_of (kind_response (spec_classify text)) ''plants'' =
            Some (JList (if spec_classify text = Auth \<or> spec_classify text = ImageInvalid
                         then [] else get_fallback_plants))"
    by (simp add: kind_response_def spec_plants_def)
  have status: "status_code error_type = spec_status (kind_of_error_type error_type)"
    by (simp add: status_code_def kind_of_error_type_def)
  have auth: "handle_api_errors error = Inr (kind_response Auth)"
    if "contains (lower text) ''permission''"
  proof -
    have "any_in auth_terms (lower text)"
      by (rule any_in_member [OF _ that]) (simp add: auth_terms_def)
    then show ?thesis
      by (simp add: code classify_cases Let_def)
  qed
  have quota: "handle_api_errors error = Inr (kind_response Quota)"
    if "contains (lower text) ''quota''" "\<not> any_in auth_terms (lower text)"
  proof -
    have "any_in quota_terms (lower text)"
      by (rule any_in_member [OF _ that(1)]) (simp add: quota_terms_def)
    with that(2) show ?thesis
      by (simp add: code classify_cases Let_def)
  qed
  have network: "handle_api_errors error = Inr (kind_response Network)"
    if "contains (lower text) ''timeout''" "\<not> any_in auth_terms (lower text)"
      "\<not> any_in quota_terms (lower text)"
  proof -
    have "any_in network_terms (lower text)"
      by (rule any_in_member [OF _ that(1)]) (simp add: network_terms_def)
    with that(2,3) show ?thesis
      by (simp add: code classify_cases Let_def)
  qed
  show ?thesis
    using code never differ plants status auth quota network by blast
qed

theorem classifier_content_and_status_witness:
  "py_str (OtherException ''Quota exceeded: API rate limit reached'') =
     Inr ''Quota exceeded: API rate limit reached''
   \<and> handle_api_errors (OtherException ''Quota exceeded: API rate limit reached'') =
       Inr (kind_response Quota)
   \<and> map_of (kind_response Quota) ''plants'' = Some (JList get_fallback_plants)
   \<and> status_code ''quota'' = 429"
proof -
  have h: "py_str (OtherException ''Quota exceeded: API rate limit reached'') =
     Inr ''Quota exceeded: API rate limit reached''"
    by simp
  show ?thesis
    using classifier_content_and_status [OF h, of "''quota''"] quota_sample
    by (simp add: kind_of_error_type_def)
qed

text \<open>
  C2 as worded fails: a data URL without a comma raises an error tagged \<open>image\<close> whose
  text contains \<open>format\<close>. The text matching gives the Malformed content (with the
  fallback plants, where the ImageInvalid kind has none), and the status is 400, not
  the 500 of Malformed.
\<close>

theorem kind_does_not_fix_status_counterexample:
  "analyze_image_and_recommend_plants (sample_runtime (\<lambda>s. None) [] None) True
     (JStr ''data:image/png;base64'') (JList [JInt 40, JInt 74, JInt 0]) =
     (Inl (GeminiAPIError ''Image processing failed: Malformed data URL format'' ''image''), [])
   \<and> spec_classify ''Image processing failed: Malformed data URL format'' = Malformed
   \<and> spec_status Malformed = 500
   \<and> spec_plants ImageInvalid = []
   \<and> answer (sample_runtime (\<lambda>s. None) [] None)
       (Some (JDict [(''image'', JStr ''data:image/png;base64''),
                     (''location'', JList [JInt 40, JInt 74])])) =
       ((error_response
          ''Plant analysis completed, but response formatting failed. Basic recommendations provided.''
          get_fallback_plants
          ''Response processing issue. Basic plant suggestions provided.'', 400), [])"
  using bad_url_text bad_url_analyze bad_url_answer
  by (simp add: spec_plants_def)

text \<open>
  C3. When the parsed response has a list under \<open>plants\<close> and no record of it survives
  validation (the list is empty, or every record is dropped), the plants of the result
  are exactly the fallback list, whose names and confidences are Spider Plant 0.7,
  Pothos 0.8, Snake Plant 0.6, in this order.
\<close>

theorem zero_survivors_give_fallback_triple:
  assumes "candidates r = Some (c # cs)"
    and "content c = Some (TextPart t # ps)"
    and "strip t \<noteq> []"
    and "json_loads rt t = Some (JDict d)"
    and "map_of d ''plants'' = Some (JList raw)"
    and "validated_plants (float_of_str rt) raw = []"
  shows "map_of (process_comprehensive_response rt (Some r)) ''plants'' =
           Some (JList get_fallback_plants)
         \<and> map name_and_confidence get_fallback_plants =
             [(Some (JStr ''Spider Plant''), Some (JFloat (Fin 0.7))),
              (Some (JStr ''Pothos''), Some (JFloat (Fin 0.8))),
              (Some (JStr ''Snake Plant''), Some (JFloat (Fin 0.6)))]"
proof -
  from assms(3) have "t \<noteq> []" using strip_Nil by auto
  with assms have "upstream_plants rt (Some r) = raw"
    by (simp add: upstream_plants_def upstream_dict_def plants_to_validate_def)
  with assms(6) have "map_of (process_comprehensive_response rt (Some r)) ''plants'' =
           Some (JList get_fallback_plants)"
    by (simp add: process_plants)
  moreover have "map name_and_confidence get_fallback_plants =
             [(Some (JStr ''Spider Plant''), Some (JFloat (Fin 0.7))),
              (Some (JStr ''Pothos''), Some (JFloat (Fin 0.8))),
              (Some (JStr ''Snake Plant''), Some (JFloat (Fin 0.6)))]"
    by (simp add: get_fallback_plants_def name_and_confidence_def)
  ultimately show ?thesis by simp
qed

text \<open>The witness: a list of a string, a number and a record whose confidence is an
  int too large for \<open>float()\<close>; all three are dropped.\<close>

theorem zero_survivors_give_fallback_triple_witness:
  "validated_plants (\<lambda>s. None)
     [JStr ''fern'', JInt 3, sample_plant (JStr ''Fern'') (JInt (2 ^ 1024))] = []
   \<and> map_of (returned_for
        [(''plants'',
          JList [JStr ''fern'', JInt 3, sample_plant (JStr ''Fern'') (JInt (2 ^ 1024))])])
        ''plants'' = Some (JList get_fallback_plants)"
proof -
  let ?raw = "[JStr ''fern'', JInt 3, sample_plant (JStr ''Fern'') (JInt (2 ^ 1024))]"
  let ?rt = "sample_runtime (\<lambda>s. Some (JDict [(''plants'', JList ?raw)])) [] None"
  have h4: "json_loads ?rt ''{}'' = Some (JDict [(''plants'', JList ?raw)])"
    by (simp add: sample_runtime_fields)
  have h5: "map_of [(''plants'', JList ?raw)] ''plants'' = Some (JList ?raw)"
    by simp
  have h6: "validated_plants (float_of_str ?rt) ?raw = []"
    by (simp only: sample_runtime_fields dropped_records)
  show ?thesis
    using zero_survivors_give_fallback_triple
      [OF text_response_parts(1) text_response_parts(2) braces_not_blank h4 h5 h6]
      dropped_records
    by (simp add: returned_for_def)
qed

text \<open>
  C4. The validator is meant to leave a \<open>placement_confidence\<close> that is 0.5 or lies in
  \<open>[0,1]\<close>. A record whose confidence is the float NaN (which \<open>json.loads\<close> produces
  from the token \<open>NaN\<close>) passes both comparisons of the range check, since every
  comparison with NaN is false: validation succeeds and the confidence stays NaN, which
  is neither 0.5 nor a number in \<open>[0,1]\<close>.
\<close>

theorem nan_confidence_survives_validation:
  "validate_comprehensive_plant_data sf (sample_plant (JStr ''Fern'') (JFloat NaN)) =
     Inr [(''name'', JStr ''Fern''),
          (''image'', JStr ''https://example.com/fern.jpg''),
          (''superimposed_image'', JStr ''''),
          (''description'', JStr ''Shade loving fern.''),
          (''care_instructions'', JStr ''Water weekly.''),
          (''care_tips'', JStr ''Mist the leaves.''),
          (''AR_model'', JStr ''https://example.com/fern.glb''),
          (''placement_confidence'', JFloat NaN)]
   \<and> NaN \<noteq> Fin 0.5 \<and> (\<forall>x. NaN \<noteq> Fin x)"
  by (simp add: validate_comprehensive_plant_data_def sample_plant_def required_fields_def
      fix_required_field_def setdefault_def dict_has_def fix_superimposed_image_def
      fix_confidence_def fix_blank_field_def strip_def is_space_def)

theorem nan_confidence_survives_validation_witness:
  "\<exists>p. validate_comprehensive_plant_data (\<lambda>s. None)
          (sample_plant (JStr ''Fern'') (JFloat NaN)) = Inr p
       \<and> map_of p ''placement_confidence'' = Some (JFloat NaN)"
  using nan_confidence_survives_validation [of "\<lambda>s. None"]
  by simp

text \<open>
  C5. When the text of the first part fails to parse, the parser returns (it has no
  failing path) the fallback result: the plants are the fallback list, the description
  is the partial-details message when the lower-cased text contains one of
  \<open>plant\<close>, \<open>grow\<close>, \<open>suitable\<close>, \<open>recommend\<close>, and the generic message otherwise.
  Both messages and the plant list are non-empty, and the result has no \<open>error\<close> key.
\<close>

theorem unparseable_text_gives_fallback:
  assumes "candidates r = Some (c # cs)"
    and "content c = Some (TextPart t # ps)"
    and "json_loads rt t = None"
  shows "process_comprehensive_response rt (Some r) =
           [(''description'',
             JStr (if any_in fallback_keywords (lower t)
                   then partial_description else generic_description)),
            (''plants'', JList get_fallback_plants)]
         \<and> partial_description \<noteq> [] \<and> generic_description \<noteq> []
         \<and> get_fallback_plants \<noteq> []
         \<and> map_of (process_comprehensive_response rt (Some r)) ''error'' = None"
proof -
  have res: "process_comprehensive_response rt (Some r) =
           [(''description'',
             JStr (if any_in fallback_keywords (lower t)
                   then partial_description else generic_description)),
            (''plants'', JList get_fallback_plants)]"
  proof (cases "t = [] \<or> strip t = []")
    case True
    then have "strip t = []" using strip_Nil by auto
    then have "\<not> any_in fallback_keywords (lower t)" by (rule blank_has_no_keyword)
    with True assms show ?thesis
      using empty_text_message_no_keyword
      by (simp add: process_comprehensive_response_def
          create_comprehensive_fallback_response_def Let_def)
  next
    case False
    with assms show ?thesis
      by (simp add: process_comprehensive_response_def
          create_comprehensive_fallback_response_def Let_def)
  qed
  show ?thesis
    unfolding res
    by (simp add: partial_description_def generic_description_def get_fallback_plants_def)
qed

theorem unparseable_text_gives_fallback_witness:
  "json_loads (sample_runtime (\<lambda>s. None) [] None) ''Try a Plant'' = None
   \<and> process_comprehensive_response (sample_runtime (\<lambda>s. None) [] None)
       (Some (text_response ''Try a Plant'')) =
       [(''description'', JStr partial_description), (''plants'', JList get_fallback_plants)]"
proof -
  have h3: "json_loads (sample_runtime (\<lambda>s. None) [] None) ''Try a Plant'' = None"
    by (simp add: sample_runtime_fields)
  show ?thesis
    using unparseable_text_gives_fallback
      [OF text_response_parts(1) text_response_parts(2) h3] sample_keyword h3
    by simp
qed

text \<open>
  C6, as amended. A document with a \<open>description\<close> and a non-empty list of plants, each
  with required fields that are strings holding a character that is not white space,
  string \<open>image\<close>, \<open>AR_model\<close> and \<open>superimposed_image\<close>, and a float
  \<open>placement_confidence\<close> in \<open>[0,1]\<close>, is returned by the parser exactly as it came.
\<close>

theorem conforming_document_round_trip:
  assumes "candidates r = Some (c # cs)"
    and "content c = Some (TextPart t # ps)"
    and "strip t \<noteq> []"
    and "json_loads rt t = Some (JDict d)"
    and "conforming_document d"
  shows "process_comprehensive_response rt (Some r) = d"
proof -
  from assms(3) have "t \<noteq> []" using strip_Nil by auto
  with assms show ?thesis
    by (simp add: process_comprehensive_response_def process_parsed_conforming)
qed

theorem conforming_document_round_trip_witness:
  "conforming_document (sample_document [fern])
   \<and> returned_for (sample_document [fern]) = sample_document [fern]"
proof -
  have h4: "json_loads (sample_runtime (\<lambda>s. Some (JDict (sample_document [fern]))) [] None) ''{}''
      = Some (JDict (sample_document [fern]))"
    by (simp add: sample_runtime_fields)
  show ?thesis
    using conforming_document_round_trip
      [OF text_response_parts(1) text_response_parts(2) braces_not_blank h4
        fern_document_conforming]
      fern_document_conforming
    by (simp add: returned_for_def)
qed

text \<open>
  C6 as worded fails on three documents of the schema: with an empty list of plants
  the result carries the three fallback plants; a name that is one space is replaced
  by \<open>Unknown Plant\<close>; an integer confidence 1 comes back as the float 1.0.
\<close>

theorem schema_document_round_trip_counterexample:
  "schema_document (sample_document [])
   \<and> returned_for (sample_document []) = sample_document get_fallback_plants
   \<and> sample_document get_fallback_plants \<noteq> sample_document []
   \<and> schema_document (sample_document [sample_plant (JStr '' '') (JFloat (Fin 0.9))])
   \<and> returned_for (sample_document [sample_plant (JStr '' '') (JFloat (Fin 0.9))]) =
       sample_document [sample_plant (JStr ''Unknown Plant'') (JFloat (Fin 0.9))]
   \<and> sample_plant (JStr ''Unknown Plant'') (JFloat (Fin 0.9)) \<noteq>
       sample_plant (JStr '' '') (JFloat (Fin 0.9))
   \<and> schema_document (sample_document [sample_plant (JStr ''Fern'') (JInt 1)])
   \<and> returned_for (sample_document [sample_plant (JStr ''Fern'') (JInt 1)]) =
       sample_document [sample_plant (JStr ''Fern'') (JFloat (Fin 1))]
   \<and> sample_plant (JStr ''Fern'') (JFloat (Fin 1)) \<noteq> sample_plant (JStr ''Fern'') (JInt 1)"
  using sample_documents_in_schema empty_list_run blank_name_run integer_confidence_run
  by (simp add: sample_document_def sample_plant_def get_fallback_plants_def)

text \<open>
  C7, as amended. The plants of every result are a non-empty list: the records of the
  upstream list that survive validation, in order, when there is one, and the three
  fallback plants otherwise. Its length is at least 1 and at most the larger of 3 and
  the length of the upstream list; no bound of 5 is applied.
\<close>

theorem result_plants_count:
  "\<exists>plants.
     map_of (process_comprehensive_response rt resp) ''plants'' = Some (JList plants) \<and>
     plants = (if validated_plants (float_of_str rt) (upstream_plants rt resp) = []
               then get_fallback_plants
               else validated_plants (float_of_str rt) (upstream_plants rt resp)) \<and>
     1 \<le> length plants \<and> length plants \<le> max 3 (length (upstream_plants rt resp))"
proof -
  have "validated_plants (float_of_str rt) (upstream_plants rt resp) \<noteq> [] \<Longrightarrow>
      1 \<le> length (validated_plants (float_of_str rt) (upstream_plants rt resp))"
    by (cases "validated_plants (float_of_str rt) (upstream_plants rt resp)") simp_all
  then show ?thesis
    using process_plants [of rt resp] fallback_plants_length
      validated_plants_length [of "float_of_str rt" "upstream_plants rt resp"]
    by auto
qed

theorem result_plants_count_witness:
  "\<exists>plants.
     map_of (returned_for (sample_document six_plants)) ''plants'' = Some (JList plants) \<and>
     1 \<le> length plants \<and>
     length plants \<le>
       max 3 (length (upstream_plants
                (sample_runtime (\<lambda>s. Some (JDict (sample_document six_plants))) [] None)
                (Some (text_response ''{}''))))"
  using result_plants_count
    [of "sample_runtime (\<lambda>s. Some (JDict (sample_document six_plants))) [] None"
        "Some (text_response ''{}'')"]
  unfolding returned_for_def
  by blast

text \<open>C7 as worded fails: six valid upstream records come back as six plants.\<close>

theorem at_most_five_plants_counterexample:
  "map_of (returned_for (sample_document six_plants)) ''plants'' = Some (JList six_plants)
   \<and> length six_plants = 6 \<and> \<not> length six_plants \<le> 5"
proof -
  have "returned_for (sample_document six_plants) = sample_document six_plants"
    by (rule returned_for_conforming [OF six_plants_conforming])
  then have "map_of (returned_for (sample_document six_plants)) ''plants'' =
      Some (JList six_plants)"
    by (simp add: sample_document_def)
  moreover have "length six_plants = 6"
    by (simp add: six_plants_def)
  ultimately show ?thesis by simp
qed

text \<open>
  C8, as amended. For every payload whose decoded length exceeds 10 MB image
  preparation fails with an error of type \<open>image\<close>. The format check runs before the
  size check: when the bytes open and verify as an image the error is the size error
  \<open>Image file too large (max 10MB)\<close>; when the image library rejects them with a text
  \<open>m\<close>, the error is \<open>Invalid or corrupted image format: m\<close>, or
  \<open>Failed to prepare image: m\<close> when \<open>m\<close> contains \<open>too large\<close>. A payload of at most
  10 MB that opens and verifies is returned.
\<close>

theorem oversized_image_rejected:
  assumes "s \<noteq> []"
    and "strip_data_url s = Inr payload"
    and "b64decode rt payload = Inr image_bytes"
  shows "(max_image_bytes < length image_bytes \<longrightarrow>
            (\<exists>m. prepare_image_for_api rt (JStr s) = Inl (GeminiAPIError m ''image'')))
       \<and> prepare_image_for_api rt (JStr s) =
          (case library_verdict rt image_bytes of
             None \<Rightarrow>
               if max_image_bytes < length image_bytes
               then Inl (GeminiAPIError ''Image file too large (max 10MB)'' ''image'')
               else Inr image_bytes
           | Some m \<Rightarrow>
               if contains m ''too large''
               then Inl (GeminiAPIError (''Failed to prepare image: '' @ m) ''image'')
               else Inl (GeminiAPIError (''Invalid or corrupted image format: '' @ m)
                           ''image''))"
proof -
  note cases = prepare_image_cases [OF assms]
  have "\<exists>m. prepare_image_for_api rt (JStr s) = Inl (GeminiAPIError m ''image'')"
    if "max_image_bytes < length image_bytes"
    using that by (simp add: cases split: option.splits)
  with cases show ?thesis by blast
qed

theorem oversized_image_rejected_witness:
  "max_image_bytes < length oversized_bytes
   \<and> prepare_image_for_api (sample_runtime (\<lambda>s. None) oversized_bytes None) (JStr ''abc'') =
       Inl (GeminiAPIError ''Image file too large (max 10MB)'' ''image'')
   \<and> prepare_image_for_api
       (sample_runtime (\<lambda>s. None) oversized_bytes (Some ''Decompressed data too large''))
       (JStr ''abc'') =
       Inl (GeminiAPIError ''Failed to prepare image: Decompressed data too large'' ''image'')
   \<and> prepare_image_for_api (sample_runtime (\<lambda>s. None) [1, 2] None) (JStr ''abc'') =
       Inr [1, 2]"
proof -
  have ne: "''abc'' \<noteq> []" by simp
  have d: "b64decode (sample_runtime (\<lambda>s. None) bs opened) ''abc'' = Inr bs" for bs opened
    by (simp add: sample_runtime_fields)
  have v: "library_verdict (sample_runtime (\<lambda>s. None) bs opened) bs = opened" for bs opened
    by (cases opened) (simp_all add: library_verdict_def sample_runtime_fields)
  have small: "\<not> max_image_bytes < length [1, 2 :: 8 word]"
    by (simp add: max_image_bytes_def)
  have large: "contains ''Decompressed data too large'' ''too large''"
    by simp
  show ?thesis
    using oversized_image_rejected [OF ne plain_payload d [of oversized_bytes None]]
      oversized_image_rejected [OF ne plain_payload
        d [of oversized_bytes "Some ''Decompressed data too large''"]]
      oversized_image_rejected [OF ne plain_payload d [of "[1, 2]" None]]
      oversized_length small large
    by (simp add: v)
qed

text \<open>
  C8 as worded fails: oversized bytes that the image library rejects give the format
  error, which does not cite the size limit.
\<close>

theorem oversized_invalid_image_counterexample:
  "max_image_bytes < length oversized_bytes
   \<and> prepare_image_for_api
       (sample_runtime (\<lambda>s. None) oversized_bytes (Some ''cannot identify image file''))
       (JStr ''abc'') =
       Inl (GeminiAPIError ''Invalid or corrupted image format: cannot identify image file''
              ''image'')
   \<and> \<not> contains ''Invalid or corrupted image format: cannot identify image file'' ''too large''
   \<and> \<not> contains ''Invalid or corrupted image format: cannot identify image file'' ''10MB''"
  using oversized_length
  by (simp add: prepare_image_for_api_def prepare_image_body_def plain_payload
      sample_runtime_fields validate_image_def open_verify_and_measure_def exception_text_def)

text \<open>
  C9. When the location is not a list of at least 2 components, \<open>answer\<close> replies with
  status 400 and has made no call to the external service; called directly with an
  authenticated client, \<open>analyze_image_and_recommend_plants\<close> raises an error of type
  \<open>validation\<close> (status 400) without any call either.
\<close>

theorem short_location_rejected_before_any_call:
  assumes "\<not> location_ok location"
  shows "(map_of d ''location'' = Some location \<longrightarrow>
           snd (fst (answer rt (Some (JDict d)))) = 400 \<and> snd (answer rt (Some (JDict d))) = [])
       \<and> (\<exists>m. analyze_image_and_recommend_plants rt True image_data location =
                (Inl (GeminiAPIError m ''validation''), []))
       \<and> status_code ''validation'' = 400"
proof -
  from assms have nl: "\<And>a b rest. location \<noteq> JList (a # b # rest)"
    by (auto simp: location_ok_def)
  have a: "answer_fields rt img location =
       ((error_response ''Invalid location format.'' []
             ''Location must be a list with at least latitude and longitude.'', 400), [])" for img
    using nl by (auto simp: answer_fields_def split: json.splits list.splits)
  have "snd (fst (answer rt (Some (JDict d)))) = 400 \<and> snd (answer rt (Some (JDict d))) = []"
    if "map_of d ''location'' = Some location"
    using that a by (auto simp: answer_def missing_fields_def split: option.splits)
  moreover have "\<exists>m. analyze_image_and_recommend_plants rt True image_data location =
                (Inl (GeminiAPIError m ''validation''), [])"
    using nl by (auto simp: analyze_image_and_recommend_plants_def split: json.splits list.splits)
  moreover have "status_code ''validation'' = 400"
    by (simp add: status_code_def)
  ultimately show ?thesis by blast
qed

theorem short_location_rejected_before_any_call_witness:
  "\<not> location_ok (JList [JFloat (Fin 40.7128)])
   \<and> snd (fst (answer (sample_runtime (\<lambda>s. None) [] None)
        (Some (JDict [(''image'', JStr ''abc''), (''location'', JList [JFloat (Fin 40.7128)])]))))
       = 400
   \<and> snd (answer (sample_runtime (\<lambda>s. None) [] None)
        (Some (JDict [(''image'', JStr ''abc''), (''location'', JList [JFloat (Fin 40.7128)])])))
       = []"
proof -
  have h: "\<not> location_ok (JList [JFloat (Fin 40.7128)])"
    by (simp add: location_ok_def)
  have m: "map_of [(''image'', JStr ''abc''), (''location'', JList [JFloat (Fin 40.7128)])]
      ''location'' = Some (JList [JFloat (Fin 40.7128)])"
    by simp
  show ?thesis
    using short_location_rejected_before_any_call [OF h,
        of "[(''image'', JStr ''abc''), (''location'', JList [JFloat (Fin 40.7128)])]"
           "sample_runtime (\<lambda>s. None) [] None"] h m
    by blast
qed


text \<open>
  C10. \<open>handle_api_errors\<close> is meant never to raise: its handler is the last resort
  for a failure of the error handling itself. The handler logs \<open>str(fallback_error)\<close>
  outside any \<open>try\<close>, so for an exception whose \<open>__str__\<close> raises an exception that
  cannot be printed either (here one whose \<open>__str__\<close> raises the object itself) that
  exception leaves the function and no dict is returned.
\<close>

theorem handle_api_errors_can_raise:
  "handle_api_errors SelfRaising = Inl SelfRaising
   \<and> handle_api_errors (BrokenStr SelfRaising) = Inl SelfRaising"
  by (simp add: handle_api_errors_def)

theorem handle_api_errors_can_raise_witness:
  "\<exists>e. handle_api_errors SelfRaising = Inl e"
  using handle_api_errors_can_raise by blast

end
